theory Spec2Isabelle
  imports Main
begin

section \<open>Batch splitting: \<open>utils.split_list\<close>\<close>

text \<open>
  Python's slice \<open>lst[a:b]\<close> for indices \<open>0 \<le> a\<close>, \<open>0 \<le> b\<close>: the elements at
  positions \<open>a, \<dots>, b - 1\<close> that exist; empty when \<open>b \<le> a\<close>. No slice raises.
\<close>

definition slice :: "'a list \<Rightarrow> nat \<Rightarrow> nat \<Rightarrow> 'a list" where
  "slice lst a b = drop a (take b lst)"

text \<open>
  \<^verbatim>\<open>
  def split_list(lst, nparts):
      n = len(lst)
      return [lst[i * (n // nparts) + min(i, n % nparts):
                  (i+1) * (n // nparts) + min(i+1, n % nparts)] for i in range(nparts)]
  \<close>
  The comprehension body runs for \<open>i\<close> in \<open>range(nparts)\<close> only, so \<open>n // nparts\<close> and
  \<open>n % nparts\<close> are evaluated with \<open>nparts > 0\<close> and \<open>i \<ge> 0\<close>: every quantity is a
  natural number. For \<open>nparts = 0\<close> the range is empty and the result is \<open>[]\<close>
  (no division is ever evaluated).
\<close>

definition split_list :: "'a list \<Rightarrow> nat \<Rightarrow> 'a list list" where
  "split_list lst nparts =
     (let n = length lst in
      map (\<lambda>i. slice lst (i * (n div nparts) + min i (n mod nparts))
                         ((i + 1) * (n div nparts) + min (i + 1) (n mod nparts)))
          [0..<nparts])"

text \<open>
  The position in \<open>lst\<close> where part \<open>i\<close> of \<open>k\<close> starts (and part \<open>i - 1\<close> ends), for
  a list of \<open>n\<close> elements: the slice bounds of the comprehension.
\<close>

definition part_bound :: "nat \<Rightarrow> nat \<Rightarrow> nat \<Rightarrow> nat" where
  "part_bound n k i = i * (n div k) + min i (n mod k)"

lemma split_list_bounds:
  "split_list lst k =
     map (\<lambda>i. slice lst (part_bound (length lst) k i) (part_bound (length lst) k (Suc i))) [0..<k]"
  by (simp add: split_list_def part_bound_def Let_def)

lemma part_bound_mono: "i \<le> j \<Longrightarrow> part_bound n k i \<le> part_bound n k j"
  unfolding part_bound_def by (intro add_mono mult_le_mono1 min.mono) simp_all

lemma part_bound_step:
  "part_bound n k (Suc i) - part_bound n k i = n div k + (if i < n mod k then 1 else 0)"
  by (simp add: part_bound_def min_def)

lemma part_bound_last:
  assumes "0 < k"
  shows "part_bound n k k = n"
proof -
  from assms have "n mod k < k" by simp
  then have "min k (n mod k) = n mod k" by simp
  then show ?thesis by (simp add: part_bound_def)
qed

lemma part_bound_le: "0 < k \<Longrightarrow> i \<le> k \<Longrightarrow> part_bound n k i \<le> n"
  using part_bound_mono [of i k n k] part_bound_last [of k n] by simp

lemma concat_slices:
  "concat (map (\<lambda>i. slice lst (part_bound n k i) (part_bound n k (Suc i))) [0..<m])
     = take (part_bound n k m) lst"
proof (induction m)
  case 0
  then show ?case by (simp add: part_bound_def)
next
  case (Suc m)
  have "part_bound n k m \<le> part_bound n k (Suc m)"
    by (rule part_bound_mono) simp
  then have "take (part_bound n k m) lst @ slice lst (part_bound n k m) (part_bound n k (Suc m))
      = take (part_bound n k (Suc m)) lst"
    by (metis slice_def append_take_drop_id min.absorb1 take_take)
  with Suc show ?case by simp
qed

lemma concat_split_list:
  assumes "0 < k"
  shows "concat (split_list lst k) = lst"
  by (simp add: split_list_bounds concat_slices part_bound_last [OF assms])

lemma length_slice: "b \<le> length lst \<Longrightarrow> length (slice lst a b) = b - a"
  by (simp add: slice_def)

lemma split_list_sizes:
  assumes "0 < k"
  shows "map length (split_list lst k)
    = map (\<lambda>i. length lst div k + (if i < length lst mod k then 1 else 0)) [0..<k]"
proof -
  have "length (slice lst (part_bound (length lst) k i) (part_bound (length lst) k (Suc i)))
      = length lst div k + (if i < length lst mod k then 1 else 0)" if "i < k" for i
  proof -
    from that assms have "part_bound (length lst) k (Suc i) \<le> length lst"
      by (intro part_bound_le) simp_all
    then show ?thesis by (simp only: length_slice part_bound_step)
  qed
  then show ?thesis by (simp add: split_list_bounds)
qed

text \<open>
  Claim C4. For every list \<open>lst\<close> and every number of parts \<open>k \<ge> 1\<close>, \<open>split_list lst k\<close>
  has exactly \<open>k\<close> parts, the parts concatenated in order are \<open>lst\<close> itself (so they are
  contiguous and keep the order), any two parts differ in length by at most one, and a
  list of 10 elements split in 3 has parts of sizes 4, 3, 3.
\<close>

theorem split_list_parts:
  assumes "1 \<le> k"
  shows "length (split_list lst k) = k
       \<and> concat (split_list lst k) = lst
       \<and> (\<forall>p \<in> set (split_list lst k). \<forall>q \<in> set (split_list lst k). length p \<le> length q + 1)
       \<and> (length lst = 10 \<and> k = 3 \<longrightarrow> map length (split_list lst k) = [4, 3, 3])"
proof -
  from assms have k: "0 < k" by simp
  have len: "length (split_list lst k) = k"
    by (simp add: split_list_bounds)
  have cat: "concat (split_list lst k) = lst"
    by (rule concat_split_list [OF k])
  have sizes: "length p = length lst div k \<or> length p = length lst div k + 1"
    if "p \<in> set (split_list lst k)" for p
  proof -
    from that have "length p \<in> set (map length (split_list lst k))" by simp
    then show ?thesis unfolding split_list_sizes [OF k] by auto
  qed
  have diff: "\<forall>p \<in> set (split_list lst k). \<forall>q \<in> set (split_list lst k). length p \<le> length q + 1"
  proof (intro ballI)
    fix p q
    assume "p \<in> set (split_list lst k)" "q \<in> set (split_list lst k)"
    then show "length p \<le> length q + 1"
      using sizes [of p] sizes [of q] by auto
  qed
  have ex: "length lst = 10 \<and> k = 3 \<longrightarrow> map length (split_list lst k) = [4, 3, 3]"
  proof
    assume a: "length lst = 10 \<and> k = 3"
    then have "map length (split_list lst 3)
      = map (\<lambda>i. length lst div 3 + (if i < length lst mod 3 then 1 else 0)) [0..<3]"
      by (intro split_list_sizes) simp
    with a show "map length (split_list lst k) = [4, 3, 3]"
      by (simp add: upt_rec)
  qed
  from len cat diff ex show ?thesis by blast
qed

theorem split_list_parts_witness:
  "length (split_list [1, 2, 3, 4, 5, 6, 7, 8, 9, 10 :: nat] 3) = 3
   \<and> concat (split_list [1, 2, 3, 4, 5, 6, 7, 8, 9, 10 :: nat] 3) = [1, 2, 3, 4, 5, 6, 7, 8, 9, 10]
   \<and> split_list [1, 2, 3, 4, 5, 6, 7, 8, 9, 10 :: nat] 3 = [[1, 2, 3, 4], [5, 6, 7], [8, 9, 10]]
   \<and> map length (split_list [1, 2, 3, 4, 5, 6, 7, 8, 9, 10 :: nat] 3) = [4, 3, 3]"
proof -
  have k: "(1::nat) \<le> 3" by simp
  have ev: "split_list [1, 2, 3, 4, 5, 6, 7, 8, 9, 10 :: nat] 3 = [[1, 2, 3, 4], [5, 6, 7], [8, 9, 10]]"
    by (simp add: split_list_def slice_def upt_rec)
  from split_list_parts [OF k, of "[1, 2, 3, 4, 5, 6, 7, 8, 9, 10 :: nat]"] ev
  show ?thesis by simp
qed

section \<open>Deduplication grouping: \<open>utils.find_root\<close> and \<open>utils.deduple_grouping\<close>\<close>

text \<open>
  \<^verbatim>\<open>
  def find_root(index, ptr):
      dummy = index
      while ptr[dummy]>=0:
          dummy = ptr[dummy]
      return dummy
  \<close>
  \<open>ptr\<close> is a numpy integer array: a negative entry marks a root and holds minus the
  size of its tree, a non-negative entry is the position of the parent. The walk starts
  at a position \<open>index \<ge> 0\<close> and only moves to non-negative entries, so \<open>dummy\<close> is a
  natural number. The loop has no bound of its own: on an array with a cycle it never
  ends, and an entry beyond the array raises \<open>IndexError\<close>. Both are the value \<open>None\<close>:
  the call does not return a position. Sizes are at most the length of the array, so the
  64-bit entries never wrap and are modelled as \<open>int\<close>.
\<close>

partial_function (option) find_root :: "nat \<Rightarrow> int list \<Rightarrow> nat option" where
  "find_root dummy ptr =
     (if dummy < length ptr
      then (if ptr ! dummy \<ge> 0 then find_root (nat (ptr ! dummy)) ptr else Some dummy)
      else None)"

declare find_root.simps [code]

text \<open>
  The body of the first loop of \<open>deduple_grouping\<close>, for one row \<open>(left, right)\<close>:
  \<^verbatim>\<open>
        left_index = ptr_index[left]
        right_index = ptr_index[right]
        left_root = find_root(left_index, ptr)
        right_root = find_root(right_index, ptr)
        if left_root==right_root:
            continue
        bigger_root, bigger_index = left_root, left_index
        smaller_root, smaller_index = right_root, right_index
        if ptr[right_root]<ptr[left_root]:
            bigger_root, bigger_index = right_root, right_index
            smaller_root, smaller_index = left_root, left_index
        ptr[bigger_root] += ptr[smaller_root]
        ptr[smaller_root] = bigger_root
  \<close>
  A key missing from \<open>ptr_index\<close> raises \<open>KeyError\<close>: the step returns \<open>None\<close>, as it
  does when \<open>find_root\<close> does not return. \<open>bigger_index\<close> and \<open>smaller_index\<close> are
  never read.
\<close>

definition union_step :: "('a \<rightharpoonup> nat) \<Rightarrow> int list \<Rightarrow> 'a \<times> 'a \<Rightarrow> int list option" where
  "union_step ptr_index ptr row =
     (case ptr_index (fst row) of None \<Rightarrow> None | Some left_index \<Rightarrow>
      case ptr_index (snd row) of None \<Rightarrow> None | Some right_index \<Rightarrow>
      case find_root left_index ptr of None \<Rightarrow> None | Some left_root \<Rightarrow>
      case find_root right_index ptr of None \<Rightarrow> None | Some right_root \<Rightarrow>
      if left_root = right_root then Some ptr
      else
        let bigger_root = (if ptr ! right_root < ptr ! left_root then right_root else left_root);
            smaller_root = (if ptr ! right_root < ptr ! left_root then left_root else right_root);
            ptr1 = ptr[bigger_root := ptr ! bigger_root + ptr ! smaller_root]
        in Some (ptr1[smaller_root := int bigger_root]))"

text \<open>The first loop: the rows in order, each on the array the previous one left.\<close>

fun union_all :: "('a \<rightharpoonup> nat) \<Rightarrow> int list \<Rightarrow> ('a \<times> 'a) list \<Rightarrow> int list option" where
  "union_all ptr_index ptr [] = Some ptr"
| "union_all ptr_index ptr (row # rows) =
     (case union_step ptr_index ptr row of
        None \<Rightarrow> None
      | Some ptr' \<Rightarrow> union_all ptr_index ptr' rows)"

text \<open>
  \<open>matched_records[root_not].append(local_not)\<close> on a \<open>defaultdict(lambda: [])\<close>: a
  dictionary keeps its keys in the order of their first insertion, so it is an
  association list; a new key is added at the end with the one-element list.
\<close>

fun dd_append :: "'k \<Rightarrow> 'v \<Rightarrow> ('k \<times> 'v list) list \<Rightarrow> ('k \<times> 'v list) list" where
  "dd_append k v [] = [(k, [v])]"
| "dd_append k v ((k', vs) # m) =
     (if k = k' then (k', vs @ [v]) # m else (k', vs) # dd_append k v m)"

text \<open>
  The second loop, over the positions \<open>range(len(ptr))\<close>:
  \<^verbatim>\<open>
        local_not = unique_nots[index]
        root_not = unique_nots[find_root(index, ptr)]
        if root_not!=local_not:
            matched_records[root_not].append(local_not)
  \<close>
  A position beyond \<open>unique_nots\<close> raises \<open>IndexError\<close> (\<open>None\<close>).
\<close>

fun collect_matched ::
  "'a list \<Rightarrow> int list \<Rightarrow> nat list \<Rightarrow> ('a \<times> 'a list) list \<Rightarrow> ('a \<times> 'a list) list option" where
  "collect_matched unique_nots ptr [] matched_records = Some matched_records"
| "collect_matched unique_nots ptr (index # rest) matched_records =
     (case find_root index ptr of
        None \<Rightarrow> None
      | Some root \<Rightarrow>
          if index < length unique_nots \<and> root < length unique_nots then
            (let local_not = unique_nots ! index; root_not = unique_nots ! root in
             if root_not \<noteq> local_not
             then collect_matched unique_nots ptr rest (dd_append root_not local_not matched_records)
             else collect_matched unique_nots ptr rest matched_records)
          else None)"

text \<open>
  \<open>deduple_grouping(pairs)\<close>: \<open>pairs\<close> is the table of confirmed pairs, one row
  \<open>(left_id, right_id)\<close> each. \<open>np.unique\<close> returns the sorted distinct identifiers,
  \<open>ptr\<close> starts as \<open>-1\<close> everywhere, \<open>ptr_index\<close> maps an identifier to its position.
  \<^verbatim>\<open>
    left_nots = pairs["left_id"].tolist()
    right_nots = pairs["right_id"].tolist()
    unique_nots = np.unique(left_nots+right_nots)
    ptr = np.zeros(unique_nots.shape[0], int) - 1
    ptr_index = dict( zip(unique_nots, np.arange(0, unique_nots.shape[0], 1)) )
  \<close>
  The result is \<open>Some\<close> of the dictionary returned, \<open>None\<close> when the call raises or does
  not return.
\<close>

definition deduple_grouping :: "('a::linorder \<times> 'a) list \<Rightarrow> ('a \<times> 'a list) list option" where
  "deduple_grouping pairs =
     (let left_nots = map fst pairs;
          right_nots = map snd pairs;
          unique_nots = sort (remdups (left_nots @ right_nots));
          ptr = replicate (length unique_nots) (- 1);
          ptr_index = map_of (zip unique_nots [0..<length unique_nots])
      in case union_all ptr_index ptr (zip left_nots right_nots) of
           None \<Rightarrow> None
         | Some ptr' \<Rightarrow> collect_matched unique_nots ptr' [0..<length ptr'] [])"

text \<open>
  Two identifiers are connected by a chain of confirmed pairs when the reflexive and
  transitive closure of the pairs, read in both directions, relates them.
\<close>

definition chained :: "('a \<times> 'a) list \<Rightarrow> ('a \<times> 'a) set" where
  "chained pairs = (set pairs \<union> (set pairs)\<inverse>)\<^sup>*"

text \<open>The clusters of a result: each root followed by the members listed for it.\<close>

definition clusters :: "('a \<times> 'a list) list \<Rightarrow> 'a list list" where
  "clusters matched_records = map (\<lambda>(root, members). root # members) matched_records"

end
